theory Spec2Isabelle
  imports Main "HOL-Library.Multiset"
begin

section \<open>Registration: the password schema and the register action\<close>

text \<open>
  A JavaScript string is modelled as a \<open>string\<close>, one \<open>char\<close> per code unit, so
  \<open>length\<close> is the \<open>.length\<close> that the schema's \<open>min\<close> check reads and a character
  class without flags is a test on single code units.
\<close>

text \<open>The character classes of the four regular expressions of \<open>passwordSchema\<close>.\<close>

definition lower_class :: "char \<Rightarrow> bool" where
  \<comment> \<open>\<open>[a-z]\<close>\<close>
  "lower_class c = (97 \<le> (of_char c :: nat) \<and> (of_char c :: nat) \<le> 122)"

definition upper_class :: "char \<Rightarrow> bool" where
  \<comment> \<open>\<open>[A-Z]\<close>\<close>
  "upper_class c = (65 \<le> (of_char c :: nat) \<and> (of_char c :: nat) \<le> 90)"

definition digit_class :: "char \<Rightarrow> bool" where
  \<comment> \<open>\<open>[0-9]\<close>\<close>
  "digit_class c = (48 \<le> (of_char c :: nat) \<and> (of_char c :: nat) \<le> 57)"

definition special_class :: "char \<Rightarrow> bool" where
  \<comment> \<open>\<open>[^a-zA-Z0-9]\<close>: the complement of the three ranges\<close>
  "special_class c = (\<not> lower_class c \<and> \<not> upper_class c \<and> \<not> digit_class c)"

definition regex_test :: "(char \<Rightarrow> bool) \<Rightarrow> string \<Rightarrow> bool" where
  \<comment> \<open>an unanchored one-character class matches when some code unit is in the class\<close>
  "regex_test cls s = list_ex cls s"

definition msg_min :: string where
  "msg_min = ''Password must be at least 8 characters long.''"

definition msg_lower :: string where
  "msg_lower = ''Password must contain at least one lowercase letter.''"

definition msg_upper :: string where
  "msg_upper = ''Password must contain at least one uppercase letter.''"

definition msg_digit :: string where
  "msg_digit = ''Password must contain at least one number.''"

definition msg_special :: string where
  "msg_special = ''Password must contain at least one special character.''"

definition passwordSchema :: "string \<Rightarrow> string list" where
  \<comment> \<open>the schema's checks run in the order they were chained, every one of them, and each
      failing check adds its message to the list of issues\<close>
  "passwordSchema s =
     (if length s < 8 then [msg_min] else []) @
     (if regex_test lower_class s then [] else [msg_lower]) @
     (if regex_test upper_class s then [] else [msg_upper]) @
     (if regex_test digit_class s then [] else [msg_digit]) @
     (if regex_test special_class s then [] else [msg_special])"

datatype parse_result =
    Success
  | Failure string "string list"  \<comment> \<open>\<open>error.errors[0].message\<close> and the messages after it\<close>

definition safeParse :: "string \<Rightarrow> parse_result" where
  "safeParse s = (case passwordSchema s of [] \<Rightarrow> Success | m # ms \<Rightarrow> Failure m ms)"

record RegisterFormData =
  name :: string
  email :: string
  password :: string

text \<open>
  The identity provider behind \<open>supabase.auth\<close>: the accounts it holds and every sign-up
  request it has received. A request carries the provider's answer \<open>reply\<close> (its
  \<open>error.message\<close>, or \<open>None\<close>); the account is created when the provider accepts.
\<close>

record auth_service =
  accounts :: "RegisterFormData list"
  signUp_calls :: "RegisterFormData list"

definition signUp ::
  "string option \<Rightarrow> RegisterFormData \<Rightarrow> auth_service \<Rightarrow> string option \<times> auth_service" where
  "signUp reply d s =
     (reply,
      s\<lparr>accounts := (case reply of None \<Rightarrow> accounts s @ [d] | Some m \<Rightarrow> accounts s),
        signUp_calls := signUp_calls s @ [d]\<rparr>)"

text \<open>An action's result \<open>{ error }\<close> is its \<open>error\<close> member: a message or \<open>null\<close>.\<close>

type_synonym action_result = "string option"

definition register ::
  "string option \<Rightarrow> RegisterFormData \<Rightarrow> auth_service \<Rightarrow> action_result \<times> auth_service" where
  "register reply d s =
     (case safeParse (password d) of
        Failure m ms \<Rightarrow> (Some m, s)
      | Success \<Rightarrow>
          (case signUp reply d s of
             (Some msg, s') \<Rightarrow> (Some msg, s')
           | (None, s') \<Rightarrow> (None, s')))"

section \<open>The session and the admin page\<close>

text \<open>
  \<open>supabase.auth.getUser()\<close> answers \<open>{ data: { user }, error }\<close>. Of the user the
  actions read \<open>id\<close> (here \<open>uid\<close>) and \<open>user_metadata.role\<close>; no user is the
  anonymous caller.
\<close>

record auth_user =
  uid :: string
  user_metadata :: "string \<rightharpoonup> string"

record getUser_reply =
  user :: "auth_user option"
  userError :: "string option"

datatype page =
    Redirect string          \<comment> \<open>\<open>redirect(target)\<close>, which does not return\<close>
  | AdminDashboardClient     \<comment> \<open>the rendered admin view\<close>

definition AdminPage :: "getUser_reply \<Rightarrow> page" where
  "AdminPage auth =
     (case user auth of
        None \<Rightarrow> Redirect ''/login''
      | Some u \<Rightarrow>
          if user_metadata u ''role'' \<noteq> Some ''admin'' then Redirect ''/polls''
          else AdminDashboardClient)"

section \<open>The store behind the poll actions\<close>

text \<open>
  The \<open>PollSettings\<close> of \<open>types/index.ts\<close>. The rows of the tables \<open>polls\<close> and
  \<open>votes\<close> carry the columns the actions name: \<open>pid\<close> is the column \<open>id\<close> of a poll and
  \<open>vote_user_id\<close> the column \<open>user_id\<close> of a vote (\<open>null\<close> is \<open>None\<close>).
\<close>

record PollSettings =
  allowMultipleVotes :: bool
  requireAuthentication :: bool

record poll_row =
  pid :: string
  user_id :: string
  question :: string
  options :: "string list"
  created_at :: int
  settings :: PollSettings

record vote_row =
  poll_id :: string
  vote_user_id :: "string option"
  option_index :: int

record store =
  polls :: "poll_row list"
  votes :: "vote_row list"
  revalidated :: "string list"  \<comment> \<open>the paths handed to \<open>revalidatePath\<close>\<close>

text \<open>
  Every query takes the store's answer \<open>db_error\<close>: the \<open>error.message\<close> of a statement
  the store refused, which then changes nothing, or \<open>None\<close> for a statement it carried out.
\<close>

definition insert_votes :: "string option \<Rightarrow> vote_row \<Rightarrow> store \<Rightarrow> string option \<times> store" where
  "insert_votes db_error row st =
     (case db_error of
        Some m \<Rightarrow> (Some m, st)
      | None \<Rightarrow> (None, st\<lparr>votes := votes st @ [row]\<rparr>))"

text \<open>The columns of a new poll that the statement leaves to the database.\<close>

record generated =
  gen_id :: string
  gen_created_at :: int
  gen_settings :: PollSettings

definition insert_polls ::
  "string option \<Rightarrow> generated \<Rightarrow> string \<Rightarrow> string \<Rightarrow> string list \<Rightarrow> store \<Rightarrow> string option \<times> store" where
  "insert_polls db_error gen owner q os st =
     (case db_error of
        Some m \<Rightarrow> (Some m, st)
      | None \<Rightarrow>
          (None,
           st\<lparr>polls := polls st @
             [\<lparr>pid = gen_id gen, user_id = owner, question = q, options = os,
               created_at = gen_created_at gen, settings = gen_settings gen\<rparr>]\<rparr>))"

definition delete_polls_eq_id :: "string option \<Rightarrow> string \<Rightarrow> store \<Rightarrow> string option \<times> store" where
  \<comment> \<open>\<open>from("polls").delete().eq("id", id)\<close>: no matching row is no error\<close>
  "delete_polls_eq_id db_error i st =
     (case db_error of
        Some m \<Rightarrow> (Some m, st)
      | None \<Rightarrow> (None, st\<lparr>polls := filter (\<lambda>p. pid p \<noteq> i) (polls st)\<rparr>))"

definition update_polls ::
  "string option \<Rightarrow> string \<Rightarrow> string list \<Rightarrow> string \<Rightarrow> string \<Rightarrow> store \<Rightarrow> string option \<times> store" where
  \<comment> \<open>\<open>update({ question, options }).eq("id", pollId).eq("user_id", user.id)\<close>\<close>
  "update_polls db_error q os i owner st =
     (case db_error of
        Some m \<Rightarrow> (Some m, st)
      | None \<Rightarrow>
          (None,
           st\<lparr>polls :=
             map (\<lambda>p. if pid p = i \<and> user_id p = owner then p\<lparr>question := q, options := os\<rparr> else p)
               (polls st)\<rparr>))"

definition msg_single :: string where
  \<comment> \<open>the store's message when \<open>.single()\<close> does not find exactly one row\<close>
  "msg_single = ''JSON object requested, multiple (or no) rows returned''"

definition select_polls_eq_id_single :: "string option \<Rightarrow> string \<Rightarrow> store \<Rightarrow> string + poll_row" where
  \<comment> \<open>\<open>select("*").eq("id", id).single()\<close>\<close>
  "select_polls_eq_id_single db_error i st =
     (case db_error of
        Some m \<Rightarrow> Inl m
      | None \<Rightarrow>
          (case filter (\<lambda>p. pid p = i) (polls st) of
             [p] \<Rightarrow> Inr p
           | _ \<Rightarrow> Inl msg_single))"

definition select_polls_eq_user_id_ordered ::
  "string option \<Rightarrow> string \<Rightarrow> store \<Rightarrow> string + poll_row list" where
  \<comment> \<open>\<open>select("*").eq("user_id", id).order("created_at", { ascending: false })\<close>\<close>
  "select_polls_eq_user_id_ordered db_error owner st =
     (case db_error of
        Some m \<Rightarrow> Inl m
      | None \<Rightarrow> Inr (rev (sort_key created_at (filter (\<lambda>p. user_id p = owner) (polls st)))))"

definition revalidatePath :: "string \<Rightarrow> store \<Rightarrow> store" where
  "revalidatePath path st = st\<lparr>revalidated := revalidated st @ [path]\<rparr>"

section \<open>The poll actions\<close>

text \<open>
  A \<open>FormData\<close> is its entries in order: \<open>get\<close> is the first value under a name or
  \<open>null\<close>, \<open>getAll\<close> every value under it. \<open>filter(Boolean)\<close> keeps the strings that
  are not empty, and \<open>!question\<close> holds of \<open>null\<close> and of the empty string.
\<close>

type_synonym FormData = "(string \<times> string) list"

definition fd_get :: "string \<Rightarrow> FormData \<Rightarrow> string option" where
  "fd_get k fd = map_of fd k"

definition fd_getAll :: "string \<Rightarrow> FormData \<Rightarrow> string list" where
  "fd_getAll k fd = map snd (filter (\<lambda>e. fst e = k) fd)"

definition truthy :: "string \<Rightarrow> bool" where
  "truthy s = (s \<noteq> [])"

definition msg_provide :: string where
  "msg_provide = ''Please provide a question and at least two options.''"

definition createPoll ::
  "FormData \<Rightarrow> getUser_reply \<Rightarrow> string option \<Rightarrow> generated \<Rightarrow> store \<Rightarrow> action_result \<times> store" where
  "createPoll formData auth db_error gen st =
     (let os = filter truthy (fd_getAll ''options'' formData) in
      case fd_get ''question'' formData of
        None \<Rightarrow> (Some msg_provide, st)
      | Some q \<Rightarrow>
          if \<not> truthy q \<or> length os < 2 then (Some msg_provide, st)
          else
            (case userError auth of
               Some m \<Rightarrow> (Some m, st)
             | None \<Rightarrow>
                 (case user auth of
                    None \<Rightarrow> (Some ''You must be logged in to create a poll.'', st)
                  | Some u \<Rightarrow>
                      (case insert_polls db_error gen (uid u) q os st of
                         (Some m, st') \<Rightarrow> (Some m, st')
                       | (None, st') \<Rightarrow> (None, revalidatePath ''/polls'' st')))))"

definition getUserPolls :: "getUser_reply \<Rightarrow> string option \<Rightarrow> store \<Rightarrow> poll_row list \<times> string option" where
  \<comment> \<open>the result is the pair of its members \<open>polls\<close> and \<open>error\<close>\<close>
  "getUserPolls auth db_error st =
     (case user auth of
        None \<Rightarrow> ([], Some ''Not authenticated'')
      | Some u \<Rightarrow>
          (case select_polls_eq_user_id_ordered db_error (uid u) st of
             Inl m \<Rightarrow> ([], Some m)
           | Inr data \<Rightarrow> (data, None)))"

definition getPollById :: "string \<Rightarrow> string option \<Rightarrow> store \<Rightarrow> poll_row option \<times> string option" where
  \<comment> \<open>the result is the pair of its members \<open>poll\<close> and \<open>error\<close>\<close>
  "getPollById i db_error st =
     (case select_polls_eq_id_single db_error i st of
        Inl m \<Rightarrow> (None, Some m)
      | Inr p \<Rightarrow> (Some p, None))"

definition submitVote ::
  "string \<Rightarrow> int \<Rightarrow> getUser_reply \<Rightarrow> string option \<Rightarrow> store \<Rightarrow> action_result \<times> store" where
  "submitVote pollId optionIndex auth db_error st =
     (case insert_votes db_error
             \<lparr>poll_id = pollId,
              vote_user_id = (case user auth of Some u \<Rightarrow> Some (uid u) | None \<Rightarrow> None),
              option_index = optionIndex\<rparr> st of
        (Some m, st') \<Rightarrow> (Some m, st')
      | (None, st') \<Rightarrow> (None, st'))"

definition deletePoll :: "string \<Rightarrow> string option \<Rightarrow> store \<Rightarrow> action_result \<times> store" where
  "deletePoll i db_error st =
     (case delete_polls_eq_id db_error i st of
        (Some m, st') \<Rightarrow> (Some m, st')
      | (None, st') \<Rightarrow> (None, revalidatePath ''/polls'' st'))"

definition updatePoll ::
  "string \<Rightarrow> FormData \<Rightarrow> getUser_reply \<Rightarrow> string option \<Rightarrow> store \<Rightarrow> action_result \<times> store" where
  "updatePoll pollId formData auth db_error st =
     (let os = filter truthy (fd_getAll ''options'' formData) in
      case fd_get ''question'' formData of
        None \<Rightarrow> (Some msg_provide, st)
      | Some q \<Rightarrow>
          if \<not> truthy q \<or> length os < 2 then (Some msg_provide, st)
          else
            (case userError auth of
               Some m \<Rightarrow> (Some m, st)
             | None \<Rightarrow>
                 (case user auth of
                    None \<Rightarrow> (Some ''You must be logged in to update a poll.'', st)
                  | Some u \<Rightarrow>
                      (case update_polls db_error q os pollId (uid u) st of
                         (Some m, st') \<Rightarrow> (Some m, st')
                       | (None, st') \<Rightarrow> (None, st')))))"

section \<open>A scenario: one poll, its owner, a second user and an anonymous caller\<close>

definition poll_p1 :: poll_row where
  "poll_p1 =
     \<lparr>pid = ''p1'', user_id = ''u1'', question = ''Best color?'', options = [''Red'', ''Blue''],
      created_at = 1,
      settings = \<lparr>allowMultipleVotes = False, requireAuthentication = True\<rparr>\<rparr>"

definition store1 :: store where
  "store1 = \<lparr>polls = [poll_p1], votes = [], revalidated = []\<rparr>"

definition signed_in :: "string \<Rightarrow> getUser_reply" where
  "signed_in i = \<lparr>user = Some \<lparr>uid = i, user_metadata = Map.empty\<rparr>, userError = None\<rparr>"

definition anonymous :: getUser_reply where
  "anonymous = \<lparr>user = None, userError = None\<rparr>"

definition form :: "string \<Rightarrow> string list \<Rightarrow> FormData" where
  "form q os = (''question'', q) # map (\<lambda>t. (''options'', t)) os"

definition gen0 :: generated where
  "gen0 =
     \<lparr>gen_id = ''p2'', gen_created_at = 2,
      gen_settings = \<lparr>allowMultipleVotes = False, requireAuthentication = False\<rparr>\<rparr>"

text \<open>
  The password rules in the specification's words, to compare the schema with: the letters
  and digits are written out, and a special character is one that is none of them.
\<close>

definition lowercase_letters :: string where
  "lowercase_letters = ''abcdefghijklmnopqrstuvwxyz''"

definition uppercase_letters :: string where
  "uppercase_letters = ''ABCDEFGHIJKLMNOPQRSTUVWXYZ''"

definition digits :: string where
  "digits = ''0123456789''"

definition has_lowercase :: "string \<Rightarrow> bool" where
  "has_lowercase p = (\<exists>c\<in>set p. c \<in> set lowercase_letters)"

definition has_uppercase :: "string \<Rightarrow> bool" where
  "has_uppercase p = (\<exists>c\<in>set p. c \<in> set uppercase_letters)"

definition has_digit :: "string \<Rightarrow> bool" where
  "has_digit p = (\<exists>c\<in>set p. c \<in> set digits)"

definition has_special :: "string \<Rightarrow> bool" where
  "has_special p = (\<exists>c\<in>set p. c \<notin> set (lowercase_letters @ uppercase_letters @ digits))"

definition first_failing_rule :: "string \<Rightarrow> string" where
  \<comment> \<open>the message of the first rule a failing password breaks, in the order
      length, lowercase, uppercase, digit, special\<close>
  "first_failing_rule p =
     (if length p < 8 then msg_min
      else if \<not> has_lowercase p then msg_lower
      else if \<not> has_uppercase p then msg_upper
      else if \<not> has_digit p then msg_digit
      else msg_special)"

section \<open>Properties of registration\<close>

lemma in_string_iff: "(c \<in> set s) = ((of_char c :: nat) \<in> set (map of_char s))"
  by (auto simp: image_iff)

lemma lower_codes: "((n::nat) \<in> set (map of_char lowercase_letters)) = (97 \<le> n \<and> n \<le> 122)"
  by (simp add: lowercase_letters_def) arith

lemma upper_codes: "((n::nat) \<in> set (map of_char uppercase_letters)) = (65 \<le> n \<and> n \<le> 90)"
  by (simp add: uppercase_letters_def) arith

lemma digit_codes: "((n::nat) \<in> set (map of_char digits)) = (48 \<le> n \<and> n \<le> 57)"
  by (simp add: digits_def) arith

lemma lower_class_iff: "lower_class c = (c \<in> set lowercase_letters)"
  by (simp only: in_string_iff [of c lowercase_letters] lower_codes lower_class_def)

lemma upper_class_iff: "upper_class c = (c \<in> set uppercase_letters)"
  by (simp only: in_string_iff [of c uppercase_letters] upper_codes upper_class_def)

lemma digit_class_iff: "digit_class c = (c \<in> set digits)"
  by (simp only: in_string_iff [of c digits] digit_codes digit_class_def)

lemma regex_tests:
  "regex_test lower_class p = has_lowercase p"
  "regex_test upper_class p = has_uppercase p"
  "regex_test digit_class p = has_digit p"
  "regex_test special_class p = has_special p"
  by (simp_all add: regex_test_def list_ex_iff has_lowercase_def has_uppercase_def has_digit_def
      has_special_def special_class_def lower_class_iff upper_class_iff digit_class_iff)

lemma passwordSchema_empty_iff:
  "(passwordSchema p = []) =
     (8 \<le> length p \<and> has_lowercase p \<and> has_uppercase p \<and> has_digit p \<and> has_special p)"
  by (auto simp: passwordSchema_def regex_tests)

lemma passwordSchema_first:
  "passwordSchema p \<noteq> [] \<Longrightarrow> \<exists>ms. passwordSchema p = first_failing_rule p # ms"
  by (auto simp: passwordSchema_def first_failing_rule_def regex_tests split: if_splits)

text \<open>
  C7. The password passes the schema exactly when it has at least 8 characters, a
  lowercase letter, an uppercase letter, a digit and a character that is none of these;
  when it fails, the first message reported is that of the first failing rule in the order
  length, lowercase, uppercase, digit, special.
\<close>

theorem validatePassword_rules:
  "((safeParse p = Success) =
      (8 \<le> length p \<and> has_lowercase p \<and> has_uppercase p \<and> has_digit p \<and> has_special p)) \<and>
   (safeParse p \<noteq> Success \<longrightarrow> (\<exists>ms. safeParse p = Failure (first_failing_rule p) ms))"
proof (cases "passwordSchema p")
  case Nil
  then show ?thesis
    using passwordSchema_empty_iff [of p] by (simp add: safeParse_def)
next
  case (Cons m ms)
  then have ne: "passwordSchema p \<noteq> []" by simp
  from passwordSchema_first [OF ne] Cons passwordSchema_empty_iff [of p] show ?thesis
    by (auto simp: safeParse_def)
qed

lemmas class_defs =
  has_lowercase_def has_uppercase_def has_digit_def has_special_def
  lowercase_letters_def uppercase_letters_def digits_def

theorem validatePassword_rules_witness:
  "(\<exists>ms. safeParse ''short1!'' = Failure msg_min ms) \<and>
   (\<exists>ms. safeParse ''alllowercase1!'' = Failure msg_upper ms) \<and>
   safeParse ''Strong1Pass!'' = Success"
proof -
  have a: "first_failing_rule ''short1!'' = msg_min"
    by (simp add: first_failing_rule_def)
  have b: "first_failing_rule ''alllowercase1!'' = msg_upper"
    by (simp add: first_failing_rule_def class_defs)
  have c: "8 \<le> length ''Strong1Pass!'' \<and> has_lowercase ''Strong1Pass!'' \<and>
      has_uppercase ''Strong1Pass!'' \<and> has_digit ''Strong1Pass!'' \<and> has_special ''Strong1Pass!''"
    by (simp add: class_defs)
  have a': "safeParse ''short1!'' \<noteq> Success"
    using validatePassword_rules [of "''short1!''"] by simp
  have b': "safeParse ''alllowercase1!'' \<noteq> Success"
    using validatePassword_rules [of "''alllowercase1!''"] by (simp add: class_defs)
  show ?thesis
    using validatePassword_rules [of "''short1!''"] validatePassword_rules [of "''alllowercase1!''"]
      validatePassword_rules [of "''Strong1Pass!''"] a b c a' b'
    by simp
qed

text \<open>
  C10. When the password fails the schema, register returns the message of the first
  failing rule and leaves the identity provider as it was: no sign-up request is sent and
  no account is created. (A password that passes is sent on: the request is recorded.)
\<close>

theorem register_validates_before_signUp:
  "(passwordSchema (password d) \<noteq> [] \<longrightarrow>
      register reply d s = (Some (first_failing_rule (password d)), s)) \<and>
   (passwordSchema (password d) = [] \<longrightarrow>
      signUp_calls (snd (register reply d s)) = signUp_calls s @ [d])"
proof (cases "passwordSchema (password d)")
  case Nil
  then show ?thesis
    by (simp add: register_def safeParse_def signUp_def split: option.splits)
next
  case (Cons m ms)
  then have ne: "passwordSchema (password d) \<noteq> []" by simp
  from passwordSchema_first [OF ne] Cons show ?thesis
    by (simp add: register_def safeParse_def)
qed

theorem register_validates_before_signUp_witness:
  "passwordSchema ''short1!'' \<noteq> [] \<and>
   register None \<lparr>name = ''Ann'', email = ''ann@example.org'', password = ''short1!''\<rparr>
       \<lparr>accounts = [], signUp_calls = []\<rparr> =
     (Some msg_min, \<lparr>accounts = [], signUp_calls = []\<rparr>) \<and>
   passwordSchema ''Strong1Pass!'' = [] \<and>
   signUp_calls
     (snd (register None \<lparr>name = ''Ann'', email = ''ann@example.org'', password = ''Strong1Pass!''\<rparr>
             \<lparr>accounts = [], signUp_calls = []\<rparr>)) =
     [\<lparr>name = ''Ann'', email = ''ann@example.org'', password = ''Strong1Pass!''\<rparr>]"
proof -
  have ne: "passwordSchema ''short1!'' \<noteq> []"
    by (simp add: passwordSchema_empty_iff)
  have f: "first_failing_rule ''short1!'' = msg_min"
    by (simp add: first_failing_rule_def)
  have ok: "passwordSchema ''Strong1Pass!'' = []"
    by (simp add: passwordSchema_empty_iff class_defs)
  show ?thesis
    using register_validates_before_signUp
      [of "\<lparr>name = ''Ann'', email = ''ann@example.org'', password = ''short1!''\<rparr>" None
        "\<lparr>accounts = [], signUp_calls = []\<rparr>"]
      register_validates_before_signUp
      [of "\<lparr>name = ''Ann'', email = ''ann@example.org'', password = ''Strong1Pass!''\<rparr>" None
        "\<lparr>accounts = [], signUp_calls = []\<rparr>"] ne f ok
    by simp
qed

section \<open>The admin page\<close>

text \<open>
  C9. The admin page decides three ways: no user is sent to the login page, a user whose
  role is not exactly admin is sent to the polls page, and only a user whose role is admin
  gets the admin view. The decision is a function of the session alone.
\<close>

theorem AdminPage_three_way:
  "(user auth = None \<longrightarrow> AdminPage auth = Redirect ''/login'') \<and>
   (\<forall>u. user auth = Some u \<and> user_metadata u ''role'' \<noteq> Some ''admin'' \<longrightarrow>
      AdminPage auth = Redirect ''/polls'') \<and>
   (\<forall>u. user auth = Some u \<and> user_metadata u ''role'' = Some ''admin'' \<longrightarrow>
      AdminPage auth = AdminDashboardClient) \<and>
   ((AdminPage auth = AdminDashboardClient) =
      (\<exists>u. user auth = Some u \<and> user_metadata u ''role'' = Some ''admin''))"
  by (auto simp: AdminPage_def split: option.splits)

theorem AdminPage_three_way_witness:
  "AdminPage anonymous = Redirect ''/login'' \<and>
   AdminPage (signed_in ''u2'') = Redirect ''/polls'' \<and>
   AdminPage \<lparr>user = Some \<lparr>uid = ''u3'', user_metadata = [''role'' \<mapsto> ''Admin'']\<rparr>,
              userError = None\<rparr> = Redirect ''/polls'' \<and>
   AdminPage \<lparr>user = Some \<lparr>uid = ''u4'', user_metadata = [''role'' \<mapsto> ''admin'']\<rparr>,
              userError = None\<rparr> = AdminDashboardClient"
  using AdminPage_three_way [of anonymous] AdminPage_three_way [of "signed_in ''u2''"]
    AdminPage_three_way
      [of "\<lparr>user = Some \<lparr>uid = ''u3'', user_metadata = [''role'' \<mapsto> ''Admin'']\<rparr>,
            userError = None\<rparr>"]
    AdminPage_three_way
      [of "\<lparr>user = Some \<lparr>uid = ''u4'', user_metadata = [''role'' \<mapsto> ''admin'']\<rparr>,
            userError = None\<rparr>"]
  by (simp add: anonymous_def signed_in_def)

section \<open>Reading polls\<close>

text \<open>
  C1. getPollById takes the poll id alone and never asks who is calling: in the scenario
  the poll of user u1 is returned, with no error, to whoever asks for it, and the only
  failure is the store's message for an id that names no single row.
\<close>

theorem getPollById_returns_poll_to_any_caller:
  "user_id poll_p1 = ''u1'' \<and>
   getPollById ''p1'' None store1 = (Some poll_p1, None) \<and>
   getPollById ''p2'' None store1 = (None, Some msg_single)"
  by (simp add: getPollById_def select_polls_eq_id_single_def store1_def poll_p1_def)

lemma sorted_desc_rev_sort_key:
  "sorted_wrt (\<lambda>a b. created_at b \<le> created_at a) (rev (sort_key created_at xs))"
proof -
  have "sorted (map created_at (sort_key created_at xs))"
    by (rule sorted_sort_key)
  then have "sorted_wrt (\<lambda>a b. created_at a \<le> created_at b) (sort_key created_at xs)"
    by (simp add: sorted_map)
  then show ?thesis
    by (simp add: sorted_wrt_rev)
qed

text \<open>
  C8, as the code has it. For an anonymous caller getUserPolls returns no polls together with the
  error message "Not authenticated". For a signed-in caller whose query the store carries
  out it returns, with no error, exactly the polls whose owner is the caller, newest first.
\<close>

theorem getUserPolls_owned_newest_first:
  "(user auth = None \<longrightarrow> getUserPolls auth db_error st = ([], Some ''Not authenticated'')) \<and>
   (\<forall>u. user auth = Some u \<longrightarrow>
      snd (getUserPolls auth None st) = None \<and>
      mset (fst (getUserPolls auth None st)) =
        mset (filter (\<lambda>p. user_id p = uid u) (polls st)) \<and>
      sorted_wrt (\<lambda>a b. created_at b \<le> created_at a) (fst (getUserPolls auth None st)))"
  by (auto simp: getUserPolls_def select_polls_eq_user_id_ordered_def
      sorted_desc_rev_sort_key)

theorem getUserPolls_anonymous_counterexample:
  "user anonymous = None \<and> getUserPolls anonymous None store1 = ([], Some ''Not authenticated'')"
  by (simp add: getUserPolls_def anonymous_def)

theorem getUserPolls_owned_newest_first_witness:
  "getUserPolls anonymous None store1 = ([], Some ''Not authenticated'') \<and>
   getUserPolls (signed_in ''u1'') None
     \<lparr>polls = [poll_p1, poll_p1\<lparr>pid := ''p2'', user_id := ''u2'', created_at := 2\<rparr>,
               poll_p1\<lparr>pid := ''p3'', created_at := 3\<rparr>],
      votes = [], revalidated = []\<rparr> =
     ([poll_p1\<lparr>pid := ''p3'', created_at := 3\<rparr>, poll_p1], None) \<and>
   sorted_wrt (\<lambda>a b. created_at b \<le> created_at a)
     (fst (getUserPolls (signed_in ''u1'') None
        \<lparr>polls = [poll_p1, poll_p1\<lparr>pid := ''p2'', user_id := ''u2'', created_at := 2\<rparr>,
                  poll_p1\<lparr>pid := ''p3'', created_at := 3\<rparr>],
         votes = [], revalidated = []\<rparr>))"
proof -
  have a: "user anonymous = None"
    by (simp add: anonymous_def)
  have b: "getUserPolls (signed_in ''u1'') None
     \<lparr>polls = [poll_p1, poll_p1\<lparr>pid := ''p2'', user_id := ''u2'', created_at := 2\<rparr>,
               poll_p1\<lparr>pid := ''p3'', created_at := 3\<rparr>],
      votes = [], revalidated = []\<rparr> =
     ([poll_p1\<lparr>pid := ''p3'', created_at := 3\<rparr>, poll_p1], None)"
    by (simp add: getUserPolls_def select_polls_eq_user_id_ordered_def signed_in_def
        poll_p1_def)
  have c: "user (signed_in ''u1'') = Some \<lparr>uid = ''u1'', user_metadata = Map.empty\<rparr>"
    by (simp add: signed_in_def)
  show ?thesis
    using getUserPolls_owned_newest_first [of anonymous None store1] a b c
      getUserPolls_owned_newest_first [of "signed_in ''u1''" None
        "\<lparr>polls = [poll_p1, poll_p1\<lparr>pid := ''p2'', user_id := ''u2'', created_at := 2\<rparr>,
                  poll_p1\<lparr>pid := ''p3'', created_at := 3\<rparr>],
          votes = [], revalidated = []\<rparr>"]
    by simp
qed

section \<open>Voting\<close>

text \<open>
  C3. submitVote inserts the vote it is given without looking for an earlier one: in the
  scenario, where the poll does not allow multiple votes, user u2 votes twice, both calls
  return no error, and the store then holds two votes of u2 on the poll.
\<close>

theorem submitVote_twice_stores_two_votes:
  "allowMultipleVotes (settings poll_p1) = False \<and>
   submitVote ''p1'' 0 (signed_in ''u2'') None store1 =
     (None, store1\<lparr>votes := [\<lparr>poll_id = ''p1'', vote_user_id = Some ''u2'', option_index = 0\<rparr>]\<rparr>) \<and>
   submitVote ''p1'' 0 (signed_in ''u2'') None
       (store1\<lparr>votes := [\<lparr>poll_id = ''p1'', vote_user_id = Some ''u2'', option_index = 0\<rparr>]\<rparr>) =
     (None,
      store1\<lparr>votes := [\<lparr>poll_id = ''p1'', vote_user_id = Some ''u2'', option_index = 0\<rparr>,
                        \<lparr>poll_id = ''p1'', vote_user_id = Some ''u2'', option_index = 0\<rparr>]\<rparr>)"
  by (simp add: submitVote_def insert_votes_def signed_in_def store1_def poll_p1_def)

text \<open>
  C4. submitVote does not compare the option index with the poll's options: in the
  scenario the poll has two options, and the votes for index 5 and for index -1 are both
  stored with no error.
\<close>

theorem submitVote_stores_index_out_of_range:
  "length (options poll_p1) = 2 \<and>
   submitVote ''p1'' 5 (signed_in ''u2'') None store1 =
     (None, store1\<lparr>votes := [\<lparr>poll_id = ''p1'', vote_user_id = Some ''u2'', option_index = 5\<rparr>]\<rparr>) \<and>
   submitVote ''p1'' (- 1) (signed_in ''u2'') None store1 =
     (None, store1\<lparr>votes := [\<lparr>poll_id = ''p1'', vote_user_id = Some ''u2'', option_index = - 1\<rparr>]\<rparr>)"
  by (simp add: submitVote_def insert_votes_def signed_in_def store1_def poll_p1_def)

text \<open>
  C5, as the code has it. submitVote reads no setting of the poll and never refuses a caller: for
  an anonymous caller, a vote the store accepts is recorded with no voter id and no error
  is returned, whatever the poll; a vote the store refuses is not recorded and the store's
  message is returned.
\<close>

theorem submitVote_anonymous_recorded:
  "(user auth = None \<longrightarrow>
      submitVote pollId i auth None st =
        (None, st\<lparr>votes := votes st @
           [\<lparr>poll_id = pollId, vote_user_id = None, option_index = i\<rparr>]\<rparr>)) \<and>
   submitVote pollId i auth (Some m) st = (Some m, st)"
  by (simp add: submitVote_def insert_votes_def)

theorem submitVote_anonymous_counterexample:
  "requireAuthentication (settings poll_p1) \<and> user anonymous = None \<and>
   submitVote ''p1'' 0 anonymous None store1 =
     (None, store1\<lparr>votes := [\<lparr>poll_id = ''p1'', vote_user_id = None, option_index = 0\<rparr>]\<rparr>)"
  by (simp add: submitVote_def insert_votes_def anonymous_def store1_def poll_p1_def)

theorem submitVote_anonymous_recorded_witness:
  "user anonymous = None \<and>
   submitVote ''p9'' 1 anonymous None \<lparr>polls = [], votes = [], revalidated = []\<rparr> =
     (None,
      \<lparr>polls = [], votes = [\<lparr>poll_id = ''p9'', vote_user_id = None, option_index = 1\<rparr>],
       revalidated = []\<rparr>)"
proof -
  have a: "user anonymous = None"
    by (simp add: anonymous_def)
  show ?thesis
    using submitVote_anonymous_recorded
      [of anonymous "''p9''" 1 "\<lparr>polls = [], votes = [], revalidated = []\<rparr>"] a
    by simp
qed

section \<open>Changing polls\<close>

lemma update_keeps_other_owners:
  "owner \<noteq> other \<Longrightarrow>
   filter (\<lambda>r. user_id r = other)
     (map (\<lambda>p. if pid p = i \<and> user_id p = owner then p\<lparr>question := q, options := os\<rparr> else p) xs) =
   filter (\<lambda>r. user_id r = other) xs"
  by (induction xs) auto

lemma truthy_fun: "truthy = (\<lambda>t. t \<noteq> [])"
  by (simp add: fun_eq_iff truthy_def)

lemma updatePoll_snd:
  "snd (updatePoll i fd auth db_error st) =
     (case fd_get ''question'' fd of
        None \<Rightarrow> st
      | Some q \<Rightarrow>
          (case user auth of
             None \<Rightarrow> st
           | Some u \<Rightarrow>
               if q \<noteq> [] \<and> 2 \<le> length (filter (\<lambda>t. t \<noteq> []) (fd_getAll ''options'' fd)) \<and>
                  userError auth = None \<and> db_error = None
               then st\<lparr>polls :=
                      map (\<lambda>p. if pid p = i \<and> user_id p = uid u
                                then p\<lparr>question := q,
                                       options := filter (\<lambda>t. t \<noteq> []) (fd_getAll ''options'' fd)\<rparr>
                                else p) (polls st)\<rparr>
               else st))"
  by (simp add: updatePoll_def update_polls_def truthy_fun Let_def split: option.splits)

text \<open>
  C2, as the code has it. For every stored poll p and every caller who is anonymous or whose id
  differs from p's owner, updatePoll on p's id leaves p stored as it is: the polls of p's
  owner, the number of polls, the votes and the revalidated paths are unchanged. The call
  is never reported as forbidden. Its result is the validation message for a form without
  a question or with fewer than two non-empty options; for a valid form it is the
  session's error if there is one, else the login message for an anonymous caller, else
  the store's error if the store refuses the statement, else no error.
\<close>

theorem updatePoll_non_owner_unchanged:
  assumes "p \<in> set (polls st)"
    and "\<forall>u. user auth = Some u \<longrightarrow> uid u \<noteq> user_id p"
  shows "filter (\<lambda>r. user_id r = user_id p) (polls (snd (updatePoll (pid p) fd auth db_error st))) =
           filter (\<lambda>r. user_id r = user_id p) (polls st) \<and>
         p \<in> set (polls (snd (updatePoll (pid p) fd auth db_error st))) \<and>
         length (polls (snd (updatePoll (pid p) fd auth db_error st))) = length (polls st) \<and>
         votes (snd (updatePoll (pid p) fd auth db_error st)) = votes st \<and>
         revalidated (snd (updatePoll (pid p) fd auth db_error st)) = revalidated st \<and>
         (\<forall>u q. user auth = Some u \<and> userError auth = None \<and> db_error = None \<and>
            fd_get ''question'' fd = Some q \<and> q \<noteq> [] \<and>
            2 \<le> length (filter (\<lambda>t. t \<noteq> []) (fd_getAll ''options'' fd)) \<longrightarrow>
            fst (updatePoll (pid p) fd auth db_error st) = None) \<and>
         (fd_get ''question'' fd = None \<or> fd_get ''question'' fd = Some [] \<or>
            length (filter (\<lambda>t. t \<noteq> []) (fd_getAll ''options'' fd)) < 2 \<longrightarrow>
            updatePoll (pid p) fd auth db_error st = (Some msg_provide, st)) \<and>
         (\<forall>q. fd_get ''question'' fd = Some q \<and> q \<noteq> [] \<and>
            2 \<le> length (filter (\<lambda>t. t \<noteq> []) (fd_getAll ''options'' fd)) \<longrightarrow>
            fst (updatePoll (pid p) fd auth db_error st) =
              (case userError auth of
                 Some m \<Rightarrow> Some m
               | None \<Rightarrow>
                   (case user auth of
                      None \<Rightarrow> Some ''You must be logged in to update a poll.''
                    | Some u \<Rightarrow> db_error)))"
proof -
  let ?st' = "snd (updatePoll (pid p) fd auth db_error st)"
  have keep: "filter (\<lambda>r. user_id r = user_id p) (polls ?st') =
      filter (\<lambda>r. user_id r = user_id p) (polls st) \<and>
      length (polls ?st') = length (polls st) \<and> votes ?st' = votes st \<and>
      revalidated ?st' = revalidated st"
    using assms(2)
    by (auto simp: updatePoll_snd update_keeps_other_owners split: option.splits)
  have "p \<in> set (filter (\<lambda>r. user_id r = user_id p) (polls st))"
    using assms(1) by simp
  then have "p \<in> set (filter (\<lambda>r. user_id r = user_id p) (polls ?st'))"
    using keep by simp
  then have mem: "p \<in> set (polls ?st')"
    by simp
  have ok: "\<forall>u q. user auth = Some u \<and> userError auth = None \<and> db_error = None \<and>
            fd_get ''question'' fd = Some q \<and> q \<noteq> [] \<and>
            2 \<le> length (filter (\<lambda>t. t \<noteq> []) (fd_getAll ''options'' fd)) \<longrightarrow>
            fst (updatePoll (pid p) fd auth db_error st) = None"
    by (auto simp: updatePoll_def update_polls_def truthy_fun Let_def)
  have invalid: "fd_get ''question'' fd = None \<or> fd_get ''question'' fd = Some [] \<or>
            length (filter (\<lambda>t. t \<noteq> []) (fd_getAll ''options'' fd)) < 2 \<longrightarrow>
            updatePoll (pid p) fd auth db_error st = (Some msg_provide, st)"
    by (auto simp: updatePoll_def truthy_fun Let_def split: option.splits)
  have valid: "\<forall>q. fd_get ''question'' fd = Some q \<and> q \<noteq> [] \<and>
            2 \<le> length (filter (\<lambda>t. t \<noteq> []) (fd_getAll ''options'' fd)) \<longrightarrow>
            fst (updatePoll (pid p) fd auth db_error st) =
              (case userError auth of
                 Some m \<Rightarrow> Some m
               | None \<Rightarrow>
                   (case user auth of
                      None \<Rightarrow> Some ''You must be logged in to update a poll.''
                    | Some u \<Rightarrow> db_error))"
    by (auto simp: updatePoll_def update_polls_def truthy_fun Let_def split: option.splits)
  from keep mem ok invalid valid show ?thesis
    by simp
qed

theorem updatePoll_non_owner_unchanged_witness:
  "poll_p1 \<in> set (polls store1) \<and> uid \<lparr>uid = ''u2'', user_metadata = Map.empty\<rparr> \<noteq> user_id poll_p1 \<and>
   polls (snd (updatePoll ''p1'' (form ''Worst color?'' [''Green'', ''Pink'']) (signed_in ''u2'') None store1)) =
     [poll_p1] \<and>
   fst (updatePoll ''p1'' (form ''Worst color?'' [''Green'', ''Pink'']) (signed_in ''u2'') None store1) = None \<and>
   fst (updatePoll ''p1'' (form ''Worst color?'' [''Green'', ''Pink'']) (signed_in ''u2'')
          (Some ''timeout'') store1) = Some ''timeout'' \<and>
   fst (updatePoll ''p1'' (form ''Worst color?'' [''Green'', ''Pink'']) anonymous None store1) =
     Some ''You must be logged in to update a poll.'' \<and>
   updatePoll ''p1'' (form ''Worst color?'' [''Green'']) (signed_in ''u2'') None store1 =
     (Some msg_provide, store1)"
proof -
  have a: "poll_p1 \<in> set (polls store1)"
    by (simp add: store1_def)
  have b: "\<forall>u. user (signed_in ''u2'') = Some u \<longrightarrow> uid u \<noteq> user_id poll_p1"
    by (simp add: signed_in_def poll_p1_def)
  have b': "\<forall>u. user anonymous = Some u \<longrightarrow> uid u \<noteq> user_id poll_p1"
    by (simp add: anonymous_def)
  have c: "pid poll_p1 = ''p1''"
    by (simp add: poll_p1_def)
  have d: "filter (\<lambda>r. user_id r = user_id poll_p1) (polls store1) = [poll_p1]"
    by (simp add: store1_def)
  have e: "fd_get ''question'' (form ''Worst color?'' [''Green'', ''Pink'']) = Some ''Worst color?'' \<and>
      filter (\<lambda>t. t \<noteq> []) (fd_getAll ''options'' (form ''Worst color?'' [''Green'', ''Pink''])) =
        [''Green'', ''Pink'']"
    by (simp add: form_def fd_get_def fd_getAll_def)
  have e': "filter (\<lambda>t. t \<noteq> []) (fd_getAll ''options'' (form ''Worst color?'' [''Green''])) =
        [''Green'']"
    by (simp add: form_def fd_getAll_def)
  have f: "user (signed_in ''u2'') = Some \<lparr>uid = ''u2'', user_metadata = Map.empty\<rparr> \<and>
      userError (signed_in ''u2'') = None"
    by (simp add: signed_in_def)
  have f': "user anonymous = None \<and> userError anonymous = None"
    by (simp add: anonymous_def)
  have g: "length (polls (snd (updatePoll ''p1'' (form ''Worst color?'' [''Green'', ''Pink''])
      (signed_in ''u2'') None store1))) = 1 \<Longrightarrow>
      filter (\<lambda>r. user_id r = user_id poll_p1) (polls (snd (updatePoll ''p1''
        (form ''Worst color?'' [''Green'', ''Pink'']) (signed_in ''u2'') None store1))) = [poll_p1] \<Longrightarrow>
      polls (snd (updatePoll ''p1'' (form ''Worst color?'' [''Green'', ''Pink''])
        (signed_in ''u2'') None store1)) = [poll_p1]"
    by (cases "polls (snd (updatePoll ''p1'' (form ''Worst color?'' [''Green'', ''Pink''])
        (signed_in ''u2'') None store1))") (auto split: if_splits)
  have h: "''u2'' \<noteq> user_id poll_p1"
    by (simp add: poll_p1_def)
  have i1: "polls (snd (updatePoll ''p1'' (form ''Worst color?'' [''Green'', ''Pink''])
        (signed_in ''u2'') None store1)) = [poll_p1] \<and>
      fst (updatePoll ''p1'' (form ''Worst color?'' [''Green'', ''Pink'']) (signed_in ''u2'') None
        store1) = None"
    using updatePoll_non_owner_unchanged
      [OF a b, of "form ''Worst color?'' [''Green'', ''Pink'']" None] c d e f g
    by (simp add: store1_def)
  have i2: "fst (updatePoll ''p1'' (form ''Worst color?'' [''Green'', ''Pink'']) (signed_in ''u2'')
          (Some ''timeout'') store1) = Some ''timeout''"
    using updatePoll_non_owner_unchanged
      [OF a b, of "form ''Worst color?'' [''Green'', ''Pink'']" "Some ''timeout''"] c e f
    by simp
  have i3: "fst (updatePoll ''p1'' (form ''Worst color?'' [''Green'', ''Pink'']) anonymous None
        store1) = Some ''You must be logged in to update a poll.''"
    using updatePoll_non_owner_unchanged
      [OF a b', of "form ''Worst color?'' [''Green'', ''Pink'']" None] c e f'
    by simp
  have i4: "updatePoll ''p1'' (form ''Worst color?'' [''Green'']) (signed_in ''u2'') None store1 =
     (Some msg_provide, store1)"
    using updatePoll_non_owner_unchanged
      [OF a b, of "form ''Worst color?'' [''Green'']" None] c e'
    by simp
  from a h i1 i2 i3 i4 show ?thesis
    by simp
qed

theorem mutation_by_non_owner_counterexample:
  "user_id poll_p1 = ''u1'' \<and>
   updatePoll ''p1'' (form ''Worst color?'' [''Green'', ''Pink'']) (signed_in ''u2'') None store1 =
     (None, store1) \<and>
   deletePoll ''p1'' None store1 = (None, \<lparr>polls = [], votes = [], revalidated = [''/polls'']\<rparr>)"
  by (simp add: updatePoll_def update_polls_def deletePoll_def delete_polls_eq_id_def
      revalidatePath_def form_def fd_get_def fd_getAll_def truthy_fun signed_in_def store1_def
      poll_p1_def)

text \<open>
  C6, as the code has it. createPoll and updatePoll check the form alike and have one message for
  it: "Please provide a question and at least two options." is returned, and nothing is
  stored, when the question is missing or empty or fewer than two options are non-empty.
  Texts are not trimmed and no length is limited: any other form passes, and for a
  signed-in caller whose statement the store carries out the poll is stored with the
  question and the non-empty options as given.
\<close>

theorem poll_input_validation:
  "(fd_get ''question'' fd = None \<or> fd_get ''question'' fd = Some [] \<or>
      length (filter (\<lambda>t. t \<noteq> []) (fd_getAll ''options'' fd)) < 2 \<longrightarrow>
      createPoll fd auth e gen st = (Some msg_provide, st) \<and>
      updatePoll i fd auth e st = (Some msg_provide, st)) \<and>
   (\<forall>q u. fd_get ''question'' fd = Some q \<and> q \<noteq> [] \<and>
      2 \<le> length (filter (\<lambda>t. t \<noteq> []) (fd_getAll ''options'' fd)) \<and>
      userError auth = None \<and> user auth = Some u \<longrightarrow>
      createPoll fd auth None gen st =
        (None,
         st\<lparr>polls := polls st @
              [\<lparr>pid = gen_id gen, user_id = uid u, question = q,
                options = filter (\<lambda>t. t \<noteq> []) (fd_getAll ''options'' fd),
                created_at = gen_created_at gen, settings = gen_settings gen\<rparr>],
            revalidated := revalidated st @ [''/polls'']\<rparr>) \<and>
      updatePoll i fd auth None st =
        (None,
         st\<lparr>polls :=
              map (\<lambda>p. if pid p = i \<and> user_id p = uid u
                        then p\<lparr>question := q,
                               options := filter (\<lambda>t. t \<noteq> []) (fd_getAll ''options'' fd)\<rparr>
                        else p) (polls st)\<rparr>))"
  by (auto simp: createPoll_def updatePoll_def insert_polls_def update_polls_def
      revalidatePath_def truthy_fun Let_def split: option.splits)

theorem poll_input_validation_witness:
  "createPoll (form [] [''Red'', ''Blue'']) (signed_in ''u1'') None gen0 store1 =
     (Some msg_provide, store1) \<and>
   updatePoll ''p1'' (form ''Best color?'' [''Red'', []]) (signed_in ''u1'') None store1 =
     (Some msg_provide, store1) \<and>
   createPoll (form ''Best pet?'' [''Cat'', [], ''Dog'']) (signed_in ''u1'') None gen0 store1 =
     (None,
      \<lparr>polls =
         [poll_p1,
          \<lparr>pid = ''p2'', user_id = ''u1'', question = ''Best pet?'', options = [''Cat'', ''Dog''],
           created_at = 2,
           settings = \<lparr>allowMultipleVotes = False, requireAuthentication = False\<rparr>\<rparr>],
       votes = [], revalidated = [''/polls'']\<rparr>)"
proof -
  have a: "fd_get ''question'' (form [] [''Red'', ''Blue'']) = Some []"
    by (simp add: form_def fd_get_def)
  have b: "length (filter (\<lambda>t. t \<noteq> []) (fd_getAll ''options'' (form ''Best color?'' [''Red'', []]))) < 2"
    by (simp add: form_def fd_getAll_def)
  have c: "fd_get ''question'' (form ''Best pet?'' [''Cat'', [], ''Dog'']) = Some ''Best pet?'' \<and>
      filter (\<lambda>t. t \<noteq> []) (fd_getAll ''options'' (form ''Best pet?'' [''Cat'', [], ''Dog''])) =
        [''Cat'', ''Dog'']"
    by (simp add: form_def fd_get_def fd_getAll_def)
  have d: "userError (signed_in ''u1'') = None \<and>
      user (signed_in ''u1'') = Some \<lparr>uid = ''u1'', user_metadata = Map.empty\<rparr>"
    by (simp add: signed_in_def)
  show ?thesis
    using poll_input_validation [of "form [] [''Red'', ''Blue'']" "signed_in ''u1''" None gen0 store1]
      poll_input_validation
        [of "form ''Best color?'' [''Red'', []]" "signed_in ''u1''" None gen0 store1 "''p1''"]
      poll_input_validation
        [of "form ''Best pet?'' [''Cat'', [], ''Dog'']" "signed_in ''u1''" None gen0 store1]
      a b c d
    by (simp add: store1_def gen0_def)
qed

theorem poll_input_validation_counterexample:
  "list_all (\<lambda>c. c = CHR '' '') ''   '' \<and> list_all (\<lambda>c. c = CHR '' '') ''  '' \<and>
   list_all (\<lambda>c. c = CHR '' '') '' '' \<and>
   fst (createPoll (form ''   '' [''  '', '' '']) (signed_in ''u1'') None gen0 store1) = None \<and>
   fst (updatePoll ''p1'' (form ''   '' [''  '', '' '']) (signed_in ''u1'') None store1) = None \<and>
   500 < length (replicate 501 (CHR ''x'')) \<and>
   fst (createPoll (form ''Best color?'' [replicate 501 (CHR ''x''), ''Blue'']) (signed_in ''u1'')
          None gen0 store1) = None \<and>
   fst (updatePoll ''p1'' (form ''Best color?'' [replicate 501 (CHR ''x''), ''Blue''])
          (signed_in ''u1'') None store1) = None"
  by (simp add: createPoll_def updatePoll_def insert_polls_def update_polls_def
      revalidatePath_def form_def fd_get_def fd_getAll_def truthy_fun signed_in_def)

end
